theory Spec2Isabelle
  imports Complex_Main "HOL-Library.Sublist"
begin

section \<open>JavaScript values handled by the front-end components\<close>

text \<open>
  The Vue components of TransferSync exchange plain data with the plugin API: the
  response of \<^verbatim>\<open>props.api.get\<close>, the configuration object, the status object.
  A value is one of the JavaScript kinds below. A number is a real or NaN (the
  infinities never occur in the components). A string is written as the bytes of its
  UTF-8 encoding (so are the Chinese labels of the source); a surrogate code unit
  that stands alone is written as the three bytes that encoding gives its number.
  An object is the list of its own enumerable properties, with distinct keys, in the
  order the language lists them: array-index keys first, ascending, then the other
  keys in insertion order. \<open>JBuiltin\<close> stands for a built-in function or object of the
  language, named by its global path; it is always truthy.
\<close>

datatype js_value =
    JUndefined
  | JNull
  | JBool bool
  | JNum real
  | JNaN
  | JStr string
  | JArr "js_value list"
  | JObj "(string \<times> js_value) list"
  | JBuiltin string

text \<open>ToBoolean, as used by \<^verbatim>\<open>if (x)\<close>, \<^verbatim>\<open>!x\<close>, \<^verbatim>\<open>a && b\<close> and \<^verbatim>\<open>a || b\<close>.\<close>

fun js_truthy :: "js_value \<Rightarrow> bool" where
  "js_truthy JUndefined = False"
| "js_truthy JNull = False"
| "js_truthy (JBool b) = b"
| "js_truthy (JNum x) = (x \<noteq> 0)"
| "js_truthy JNaN = False"
| "js_truthy (JStr s) = (s \<noteq> [])"
| "js_truthy (JArr xs) = True"
| "js_truthy (JObj ps) = True"
| "js_truthy (JBuiltin n) = True"

text \<open>\<^verbatim>\<open>a || b\<close>: the first operand when it is truthy, the second otherwise.\<close>

definition js_or :: "js_value \<Rightarrow> js_value \<Rightarrow> js_value" where
  "js_or a b = (if js_truthy a then a else b)"

text \<open>
  The properties every object literal inherits from \<^verbatim>\<open>Object.prototype\<close>
  (ECMAScript, with the legacy accessors of its Annex B). Each is a function, except
  \<^verbatim>\<open>__proto__\<close>, which reads as the prototype object itself.
\<close>

definition Object_prototype :: "(string \<times> js_value) list" where
  "Object_prototype =
    [(''constructor'', JBuiltin ''Object''),
     (''hasOwnProperty'', JBuiltin ''Object.prototype.hasOwnProperty''),
     (''isPrototypeOf'', JBuiltin ''Object.prototype.isPrototypeOf''),
     (''propertyIsEnumerable'', JBuiltin ''Object.prototype.propertyIsEnumerable''),
     (''toLocaleString'', JBuiltin ''Object.prototype.toLocaleString''),
     (''toString'', JBuiltin ''Object.prototype.toString''),
     (''valueOf'', JBuiltin ''Object.prototype.valueOf''),
     (''__proto__'', JBuiltin ''Object.prototype''),
     (''__defineGetter__'', JBuiltin ''Object.prototype.__defineGetter__''),
     (''__defineSetter__'', JBuiltin ''Object.prototype.__defineSetter__''),
     (''__lookupGetter__'', JBuiltin ''Object.prototype.__lookupGetter__''),
     (''__lookupSetter__'', JBuiltin ''Object.prototype.__lookupSetter__'')]"

text \<open>
  \<^verbatim>\<open>obj[key]\<close> on an object literal: an own property first, then the prototype
  chain, which for a literal is \<^verbatim>\<open>Object.prototype\<close> alone; \<^verbatim>\<open>undefined\<close>
  when neither has the key.
\<close>

definition js_index :: "(string \<times> js_value) list \<Rightarrow> string \<Rightarrow> js_value" where
  "js_index ps k =
    (case map_of ps k of
       Some v \<Rightarrow> v
     | None \<Rightarrow> (case map_of Object_prototype k of Some v \<Rightarrow> v | None \<Rightarrow> JUndefined))"

text \<open>
  \<^verbatim>\<open>v.key\<close> on any value: \<open>None\<close> is the TypeError of reading a property of
  \<^verbatim>\<open>undefined\<close> or \<^verbatim>\<open>null\<close>. Arrays, strings, numbers, booleans and
  functions inherit from \<^verbatim>\<open>Object.prototype\<close> too; the properties of their own
  prototypes (\<^verbatim>\<open>length\<close> and the like) are not modelled, and the components read
  none of them.
\<close>

fun js_get :: "js_value \<Rightarrow> string \<Rightarrow> js_value option" where
  "js_get JUndefined k = None"
| "js_get JNull k = None"
| "js_get (JObj ps) k = Some (js_index ps k)"
| "js_get v k = Some (js_index [] k)"

text \<open>Decimal digits of an index, as property keys of arrays and strings have them.\<close>

fun show_nat :: "nat \<Rightarrow> string" where
  "show_nat n =
    (if n < 10 then [char_of (48 + n)]
     else show_nat (n div 10) @ [char_of (48 + n mod 10)])"

declare show_nat.simps [simp del]

text \<open>
  An array index is a key that is the decimal form, without leading zeros, of a number
  below 4294967295. Own property keys are listed with the array indices first, in
  ascending order.
\<close>

definition is_digit :: "char \<Rightarrow> bool" where
  "is_digit c = (let n = (of_char c :: nat) in 48 \<le> n \<and> n \<le> 57)"

definition read_nat :: "string \<Rightarrow> nat" where
  "read_nat s = foldl (\<lambda>a c. 10 * a + (of_char c - 48)) 0 s"

definition array_index :: "string \<Rightarrow> nat option" where
  "array_index k =
    (if k \<noteq> [] \<and> list_all is_digit k \<and> (k = ''0'' \<or> hd k \<noteq> CHR ''0'')
        \<and> read_nat k < 4294967295
     then Some (read_nat k) else None)"

text \<open>
  Whether a new key \<open>k\<close> is listed before an existing key \<open>k'\<close>: only an array
  index is, before every key that is none and before every greater array index.
\<close>

definition comes_before :: "string \<Rightarrow> string \<Rightarrow> bool" where
  "comes_before k k' =
    (case array_index k of
       None \<Rightarrow> False
     | Some i \<Rightarrow> (case array_index k' of None \<Rightarrow> True | Some j \<Rightarrow> i < j))"

text \<open>
  The UTF-16 code units of a string, each as the string of that one unit. A character
  of the basic plane (one to three bytes) is one unit; a character beyond it (four
  bytes) is two surrogate units. A byte list that is not the encoding of a string
  stands for no JavaScript string; its stray bytes are taken one by one.
\<close>

definition surrogate :: "nat \<Rightarrow> string" where
  "surrogate u =
    [char_of (224 + u div 4096), char_of (128 + (u div 64) mod 64), char_of (128 + u mod 64)]"

fun js_code_units :: "string \<Rightarrow> string list" where
  "js_code_units [] = []"
| "js_code_units (b # bs) =
    (let n = (of_char b :: nat)
     in if 240 \<le> n \<and> 3 \<le> length bs
        then (let cp = (n mod 8) * 262144 + (of_char (bs ! 0) mod 64) * 4096
                        + (of_char (bs ! 1) mod 64) * 64 + of_char (bs ! 2) mod 64;
                  u = cp - 65536
              in surrogate (55296 + u div 1024) # surrogate (56320 + u mod 1024)
                   # js_code_units (drop 3 bs))
        else if 224 \<le> n \<and> 2 \<le> length bs then (b # take 2 bs) # js_code_units (drop 2 bs)
        else if 192 \<le> n \<and> 1 \<le> length bs then (b # take 1 bs) # js_code_units (drop 1 bs)
        else [b] # js_code_units bs)"

text \<open>
  The own enumerable properties that an object spread \<^verbatim>\<open>{...v}\<close> copies: those of
  an object, the elements of an array under their indices, the code units of a string
  under theirs, and none of any other value.
\<close>

fun js_own_enumerable :: "js_value \<Rightarrow> (string \<times> js_value) list" where
  "js_own_enumerable (JObj ps) = ps"
| "js_own_enumerable (JArr xs) = zip (map show_nat [0..<length xs]) xs"
| "js_own_enumerable (JStr s) =
    (let units = js_code_units s in zip (map show_nat [0..<length units]) (map JStr units))"
| "js_own_enumerable v = []"

text \<open>
  Defining a property while an object literal is built: an existing key keeps its
  place and takes the new value; a new key that is an array index goes to its place
  among the array indices; any other new key goes last.
\<close>

fun obj_put :: "string \<Rightarrow> js_value \<Rightarrow> (string \<times> js_value) list \<Rightarrow> (string \<times> js_value) list" where
  "obj_put k v [] = [(k, v)]"
| "obj_put k v ((k', v') # ps) =
    (if k' = k then (k, v) # ps
     else if comes_before k k' then (k, v) # (k', v') # ps
     else (k', v') # obj_put k v ps)"

text \<open>\<^verbatim>\<open>{...base, ...extra}\<close>: the properties of \<open>extra\<close> defined over \<open>base\<close>.\<close>

definition js_spread :: "(string \<times> js_value) list \<Rightarrow> (string \<times> js_value) list \<Rightarrow> (string \<times> js_value) list" where
  "js_spread base extra = fold (\<lambda>(k, v) acc. obj_put k v acc) extra base"

text \<open>
  What awaiting an API call gives: the value the promise resolves to, or an exception
  (a rejected promise, or the TypeError of calling a method the API object lacks).
\<close>

datatype api_reply = Returned js_value | Threw

section \<open>Config.vue\<close>









text \<open>An item of a select box: \<^verbatim>\<open>{ title: ..., value: ... }\<close>.\<close>

record select_item =
  title :: string
  "value" :: string


text \<open>
  The literal that \<^verbatim>\<open>ref({ ... })\<close> starts from, before
  \<^verbatim>\<open>...props.initialConfig\<close> is spread over it.
\<close>

definition config_defaults :: "(string \<times> js_value) list" where
  "config_defaults =
    [(''enabled'', JBool False),
     (''source_path'', JStr ''''),
     (''target_path'', JStr ''''),
     (''sync_type'', JStr ''incremental''),
     (''execution_mode'', JStr ''immediate''),
     (''delay_minutes'', JNum 5),
     (''enable_notifications'', JBool False),
     (''notification_channel'', JStr ''telegram''),
     (''sync_strategy'', JStr ''copy''),
     (''max_depth'', JNum (- 1)),
     (''file_filters'', JStr ''''),
     (''exclude_patterns'', JStr ''''),
     (''max_workers'', JNum 4),
     (''trigger_events'', JArr [JStr ''transfer.complete''])]"

text \<open>
  The reactive state of the Config component, and the events it has emitted to its
  parent (name and payload), oldest first. Console output is not part of the state.
\<close>

record config_view =
  config :: "(string \<times> js_value) list"
  config_loading :: bool
  saving :: bool
  emitted :: "(string \<times> js_value) list"

text \<open>
  The prop \<^verbatim>\<open>initialConfig\<close> has the default \<^verbatim>\<open>() => ({})\<close>: a parent that
  passes nothing (\<open>None\<close>) gives the empty object.
\<close>

definition props_initialConfig :: "(string \<times> js_value) list option \<Rightarrow> (string \<times> js_value) list" where
  "props_initialConfig given = (case given of None \<Rightarrow> [] | Some c \<Rightarrow> c)"

text \<open>The state right after \<^verbatim>\<open>setup\<close> has run.\<close>

definition Config_setup :: "(string \<times> js_value) list option \<Rightarrow> config_view" where
  "Config_setup given =
    \<lparr>config = js_spread config_defaults (props_initialConfig given),
     config_loading = False,
     saving = False,
     emitted = []\<rparr>"

text \<open>
  \<^verbatim>\<open>saveConfig\<close> posts \<^verbatim>\<open>config.value\<close> to \<^verbatim>\<open>save_config_api\<close>; the request is
  the endpoint with its payload.
\<close>

definition saveConfig_request :: "config_view \<Rightarrow> string \<times> js_value" where
  "saveConfig_request st = (''save_config_api'', JObj (config st))"

text \<open>
  The state once \<^verbatim>\<open>saveConfig\<close> has finished with the given reply: \<^verbatim>\<open>save\<close> is
  emitted with the configuration when \<^verbatim>\<open>result.success\<close> is truthy; a falsy
  \<^verbatim>\<open>success\<close>, a reply without properties to read and an exception only log; the
  \<^verbatim>\<open>finally\<close> block clears \<^verbatim>\<open>saving\<close>.
\<close>

definition saveConfig :: "api_reply \<Rightarrow> config_view \<Rightarrow> config_view" where
  "saveConfig reply st =
    (case reply of
       Threw \<Rightarrow> st\<lparr>saving := False\<rparr>
     | Returned result \<Rightarrow>
         (case js_get result ''success'' of
            None \<Rightarrow> st\<lparr>saving := False\<rparr>
          | Some ok \<Rightarrow>
              if js_truthy ok
              then st\<lparr>saving := False, emitted := emitted st @ [(''save'', JObj (config st))]\<rparr>
              else st\<lparr>saving := False\<rparr>))"

section \<open>The status components: Dashboard.vue, Page.vue and the status widget\<close>

text \<open>The reactive state that \<^verbatim>\<open>getStatus\<close> reads and writes.\<close>

record status_view =
  status :: js_value
  loading :: bool

text \<open>
  \<^verbatim>\<open>result && !result.error\<close>. The property is read only of a truthy result, so
  the read never throws.
\<close>

definition no_error :: "js_value \<Rightarrow> bool" where
  "no_error result =
    (if js_truthy result
     then (case js_get result ''error'' of Some e \<Rightarrow> \<not> js_truthy e | None \<Rightarrow> False)
     else False)"

text \<open>
  \<^verbatim>\<open>getStatus\<close> of \<^verbatim>\<open>frontend/src/components/Dashboard.vue\<close> (and of its compiled
  form): nothing happens unless refreshing is allowed and an API object was passed;
  otherwise \<^verbatim>\<open>loading\<close> is raised, the reply awaited, \<^verbatim>\<open>status.value\<close> assigned
  the result when it is truthy and carries no error, and \<^verbatim>\<open>loading\<close> cleared in
  \<^verbatim>\<open>finally\<close>.
\<close>

definition Dashboard_getStatus :: "bool \<Rightarrow> bool \<Rightarrow> api_reply \<Rightarrow> status_view \<Rightarrow> status_view" where
  "Dashboard_getStatus allowRefresh api reply st =
    (if \<not> allowRefresh \<or> \<not> api then st
     else (case reply of
             Threw \<Rightarrow> st\<lparr>loading := False\<rparr>
           | Returned result \<Rightarrow>
               if no_error result then st\<lparr>status := result, loading := False\<rparr>
               else st\<lparr>loading := False\<rparr>))"

text \<open>
  \<^verbatim>\<open>getStatus\<close> of Page.vue: no guard. Without an API object the call itself
  throws inside \<^verbatim>\<open>try\<close>, whatever the reply would have been.
\<close>

definition Page_getStatus :: "bool \<Rightarrow> api_reply \<Rightarrow> status_view \<Rightarrow> status_view" where
  "Page_getStatus api reply st =
    (case (if api then reply else Threw) of
       Threw \<Rightarrow> st\<lparr>loading := False\<rparr>
     | Returned result \<Rightarrow>
         if no_error result then st\<lparr>status := result, loading := False\<rparr>
         else st\<lparr>loading := False\<rparr>)"

text \<open>
  \<^verbatim>\<open>getStatus\<close> of the status widget (the component that also defines
  \<^verbatim>\<open>formatStrategy\<close>): guarded by \<^verbatim>\<open>allowRefresh\<close> only; \<^verbatim>\<open>props.api?.get\<close>
  gives \<^verbatim>\<open>undefined\<close> without an API object; an accepted result is copied into a
  new object together with \<^verbatim>\<open>last_sync_time\<close>, the local time string \<open>now\<close>.
\<close>

definition Widget_getStatus :: "bool \<Rightarrow> bool \<Rightarrow> string \<Rightarrow> api_reply \<Rightarrow> status_view \<Rightarrow> status_view" where
  "Widget_getStatus allowRefresh api now reply st =
    (if \<not> allowRefresh then st
     else (case (if api then reply else Returned JUndefined) of
             Threw \<Rightarrow> st\<lparr>loading := False\<rparr>
           | Returned result \<Rightarrow>
               if no_error result
               then st\<lparr>status := JObj (obj_put ''last_sync_time'' (JStr now)
                                          (js_spread [] (js_own_enumerable result))),
                       loading := False\<rparr>
               else st\<lparr>loading := False\<rparr>))"

text \<open>A status component in the middle of a refresh, for concrete runs.\<close>

definition example_status :: status_view where
  "example_status =
    \<lparr>status = JObj [(''enabled'', JBool False), (''sync_paths_count'', JNum 0)],
     loading = True\<rparr>"

text \<open>The display labels of the widget, as UTF-8 bytes.\<close>

definition label_copy :: string where
  "label_copy = [CHR 0xE5, CHR 0xA4, CHR 0x8D, CHR 0xE5, CHR 0x88, CHR 0xB6]"

definition label_move :: string where
  "label_move = [CHR 0xE7, CHR 0xA7, CHR 0xBB, CHR 0xE5, CHR 0x8A, CHR 0xA8]"

definition label_softlink :: string where
  "label_softlink = [CHR 0xE8, CHR 0xBD, CHR 0xAF, CHR 0xE9, CHR 0x93, CHR 0xBE, CHR 0xE6, CHR 0x8E, CHR 0xA5]"

definition label_hardlink :: string where
  "label_hardlink = [CHR 0xE7, CHR 0xA1, CHR 0xAC, CHR 0xE9, CHR 0x93, CHR 0xBE, CHR 0xE6, CHR 0x8E, CHR 0xA5]"

definition label_incremental :: string where
  "label_incremental = [CHR 0xE5, CHR 0xA2, CHR 0x9E, CHR 0xE9, CHR 0x87, CHR 0x8F]"

definition label_full :: string where
  "label_full = [CHR 0xE5, CHR 0x85, CHR 0xA8, CHR 0xE9, CHR 0x87, CHR 0x8F]"

definition strategyMap :: "(string \<times> js_value) list" where
  "strategyMap =
    [(''copy'', JStr label_copy),
     (''move'', JStr label_move),
     (''softlink'', JStr label_softlink),
     (''hardlink'', JStr label_hardlink)]"

definition typeMap :: "(string \<times> js_value) list" where
  "typeMap =
    [(''incremental'', JStr label_incremental),
     (''full'', JStr label_full)]"

text \<open>\<^verbatim>\<open>return strategyMap[strategy] || strategy\<close>.\<close>

definition formatStrategy :: "string \<Rightarrow> js_value" where
  "formatStrategy strategy = js_or (js_index strategyMap strategy) (JStr strategy)"

text \<open>\<^verbatim>\<open>return typeMap[type] || type\<close>.\<close>

definition formatSyncType :: "string \<Rightarrow> js_value" where
  "formatSyncType type = js_or (js_index typeMap type) (JStr type)"

section \<open>The plugin's Python enumerations\<close>


datatype SyncStrategy = COPY | MOVE | SOFTLINK | HARDLINK

datatype SyncType = INCREMENTAL | FULL

datatype ExecutionMode = IMMEDIATE | DELAYED





section \<open>The planner of the specification: Path Filter and Diff Planner\<close>

text \<open>
  Modelled from the spec: the plugin's sync engine (the Python that filters, plans and
  transfers) is not among the repository's files, which hold
  the front-end and the notes on the plugin. This section follows the words of the
  specification's sections 3, 4.1 and 4.2.
\<close>

text \<open>
  Modelled from the spec: the fields of SyncConfiguration that the Path Filter and the
  Diff Planner read, and the strategy beside them (\<open>source_path'\<close>,
  \<open>target_path'\<close> and \<open>sync_type'\<close> are the spec's \<^verbatim>\<open>source_path\<close>,
  \<^verbatim>\<open>target_path\<close> and \<^verbatim>\<open>sync_type\<close>). \<open>max_depth\<close> is -1 for no limit;
  \<open>file_filters\<close> is the set of extensions, empty for all; \<open>exclude_patterns\<close>
  the set of substrings.
\<close>

record SyncConfiguration =
  source_path' :: string
  target_path' :: string
  sync_type' :: SyncType
  sync_strategy :: SyncStrategy
  max_depth :: int
  file_filters :: "string list"
  exclude_patterns :: "string list"

text \<open>
  Modelled from the spec: the Path Filter tells files from directories (directories are
  never filtered by extension).
\<close>

datatype entry_kind = RegularFile | Directory

text \<open>
  Modelled from the spec: the extension of a path is the trailing dot-segment of its
  last component, compared case-insensitively (ASCII letters folded to lower case); a
  name without a dot has the empty extension.
\<close>

definition to_lower :: "char \<Rightarrow> char" where
  "to_lower c =
    (let n = (of_char c :: nat) in if 65 \<le> n \<and> n \<le> 90 then char_of (n + 32) else c)"

definition basename :: "string \<Rightarrow> string" where
  "basename path = rev (takeWhile (\<lambda>c. c \<noteq> CHR ''/'') (rev path))"

definition extension :: "string \<Rightarrow> string" where
  "extension path =
    (let name = basename path
     in if CHR ''.'' \<in> set name then rev (takeWhile (\<lambda>c. c \<noteq> CHR ''.'') (rev name)) else [])"

text \<open>
  Modelled from the spec: \<^verbatim>\<open>admits(path, depth)\<close> of section 4.1. It rejects when
  \<open>max_depth\<close> is at least 0 and the depth exceeds it; when \<open>file_filters\<close> is
  non-empty and a file's extension is not in it; and when an exclude pattern is a
  case-sensitive substring of the path.
\<close>

definition admits :: "SyncConfiguration \<Rightarrow> entry_kind \<Rightarrow> string \<Rightarrow> int \<Rightarrow> bool" where
  "admits cfg kind path depth =
    (\<not> (0 \<le> max_depth cfg \<and> max_depth cfg < depth)
     \<and> (kind = RegularFile \<and> file_filters cfg \<noteq> [] \<longrightarrow>
          map to_lower (extension path) \<in> set (map (map to_lower) (file_filters cfg)))
     \<and> \<not> (\<exists>pat \<in> set (exclude_patterns cfg). sublist pat path))"

text \<open>
  Modelled from the spec: what \<^verbatim>\<open>stat\<close> reports of a file, as far as the planner
  compares it: size and modification time.
\<close>

record file_stat =
  st_size :: nat
  st_mtime :: int

text \<open>
  Modelled from the spec: FileTask of section 3 (\<open>size'\<close> is its field \<^verbatim>\<open>size\<close>).
\<close>

record FileTask =
  relative_path :: string
  source_abs_path :: string
  target_abs_path :: string
  size' :: nat
  mtime :: int

text \<open>
  Modelled from the spec: an entry of the source tree as the walk meets it: a regular
  file with its name, size and modification time, a directory with its entries, or
  something that is neither (a device, a socket), which the planner passes over.
\<close>

datatype fs_entry = File string nat int | Dir string "fs_entry list" | Special string

text \<open>
  Modelled from the spec: what the engine reads of the filesystem: the tree found at an
  absolute path (\<open>None\<close> when the path does not exist or cannot be read) and the
  \<^verbatim>\<open>stat\<close> of the regular file at an absolute path (\<open>None\<close> when there is none).
\<close>

record filesystem =
  trees :: "string \<rightharpoonup> fs_entry list"
  files :: "string \<rightharpoonup> file_stat"

text \<open>Modelled from the spec: a path below a directory; the root's relative path is empty.\<close>

definition join_path :: "string \<Rightarrow> string \<Rightarrow> string" where
  "join_path dir name = (if dir = [] then name else dir @ ''/'' @ name)"

text \<open>
  Modelled from the spec: the task for a source file, its target path mirroring the
  relative path under \<open>target_path\<close>.
\<close>

definition task_of :: "SyncConfiguration \<Rightarrow> string \<Rightarrow> nat \<Rightarrow> int \<Rightarrow> FileTask" where
  "task_of cfg rel sz mt =
    \<lparr>relative_path = rel,
     source_abs_path = join_path (source_path' cfg) rel,
     target_abs_path = join_path (target_path' cfg) rel,
     size' = sz,
     mtime = mt\<rparr>"

text \<open>
  Modelled from the spec: the incremental test of section 4.2: the target is absent, or
  its size differs, or its modification time is strictly older than the source's.
\<close>

definition needs_transfer :: "(string \<rightharpoonup> file_stat) \<Rightarrow> FileTask \<Rightarrow> bool" where
  "needs_transfer fls t =
    (case fls (target_abs_path t) of
       None \<Rightarrow> True
     | Some st \<Rightarrow> st_size st \<noteq> size' t \<or> st_mtime st < mtime t)"

text \<open>
  Modelled from the spec: the depth-first walk of section 4.2 below the directory with
  relative path \<open>dir\<close> at depth \<open>depth\<close>. A file has the depth of the directory
  that holds it and a directory is one deeper than its parent. A regular file that the
  Path Filter admits gives a task always in full mode, and in incremental mode when
  \<open>needs_transfer\<close> holds; a directory that the filter rejects is not descended
  into.
\<close>

fun walk :: "SyncConfiguration \<Rightarrow> (string \<rightharpoonup> file_stat) \<Rightarrow> string \<Rightarrow> nat \<Rightarrow> fs_entry \<Rightarrow> FileTask list" where
  "walk cfg fls dir depth (File name sz mt) =
    (let rel = join_path dir name; t = task_of cfg rel sz mt
     in if admits cfg RegularFile rel (int depth)
           \<and> (sync_type' cfg = FULL \<or> needs_transfer fls t)
        then [t] else [])"
| "walk cfg fls dir depth (Dir name entries) =
    (let rel = join_path dir name
     in if admits cfg Directory rel (int (Suc depth))
        then concat (map (walk cfg fls rel (Suc depth)) entries)
        else [])"
| "walk cfg fls dir depth (Special name) = []"

text \<open>Modelled from the spec: the job-level errors of section 7 that planning can raise.\<close>

datatype job_error = PlanningError

text \<open>
  Modelled from the spec: \<^verbatim>\<open>plan(config)\<close> of section 4.2 with no scope hint: the
  walk of the whole tree at \<open>source_path\<close>, the root at depth 0; PlanningError when
  \<open>source_path\<close> does not exist or cannot be read.
\<close>

definition plan :: "SyncConfiguration \<Rightarrow> filesystem \<Rightarrow> job_error + FileTask list" where
  "plan cfg fs =
    (case trees fs (source_path' cfg) of
       None \<Rightarrow> Inl PlanningError
     | Some entries \<Rightarrow> Inr (concat (map (walk cfg (files fs) [] 0) entries)))"

text \<open>
  Modelled from the spec: every regular file below a directory, filtered or not, with its
  relative path, depth, size and modification time: the files that "every regular file
  under \<open>source_path\<close>" ranges over.
\<close>

fun files_under :: "string \<Rightarrow> nat \<Rightarrow> fs_entry \<Rightarrow> (string \<times> nat \<times> nat \<times> int) list" where
  "files_under dir depth (File name sz mt) = [(join_path dir name, depth, sz, mt)]"
| "files_under dir depth (Dir name entries) =
    concat (map (files_under (join_path dir name) (Suc depth)) entries)"
| "files_under dir depth (Special name) = []"

definition all_files :: "fs_entry list \<Rightarrow> (string \<times> nat \<times> nat \<times> int) list" where
  "all_files entries = concat (map (files_under [] 0) entries)"

text \<open>
  Modelled from the spec: whether the walk gives a task for a regular file: the filter
  admits it and, in incremental mode, it needs the transfer.
\<close>

definition emitted_by ::
  "SyncConfiguration \<Rightarrow> (string \<rightharpoonup> file_stat) \<Rightarrow> (string \<times> nat \<times> nat \<times> int) \<Rightarrow> bool" where
  "emitted_by cfg fls f =
    (case f of (p, d, sz, mt) \<Rightarrow>
       admits cfg RegularFile p (int d)
       \<and> (sync_type' cfg = FULL \<or> needs_transfer fls (task_of cfg p sz mt)))"

text \<open>A configuration, a source tree and a target for concrete runs of the planner.\<close>

definition example_cfg :: SyncConfiguration where
  "example_cfg =
    \<lparr>source_path' = ''/downloads'', target_path' = ''/media'', sync_type' = INCREMENTAL,
     sync_strategy = MOVE, max_depth = 2, file_filters = [''mp4'', ''MKV''],
     exclude_patterns = [''tmp'']\<rparr>"

definition example_tree :: "fs_entry list" where
  "example_tree =
    [File ''a.mp4'' 10 100,
     Dir ''show'' [File ''e1.mkv'' 7 50, File ''notes.txt'' 1 5],
     Dir ''tmp'' [File ''part.mp4'' 3 9]]"

definition example_fs :: filesystem where
  "example_fs =
    \<lparr>trees = [''/downloads'' \<mapsto> example_tree],
     files = [''/media/a.mp4'' \<mapsto> \<lparr>st_size = 10, st_mtime = 100\<rparr>,
              ''/media/show/e1.mkv'' \<mapsto> \<lparr>st_size = 7, st_mtime = 40\<rparr>]\<rparr>"

definition example_task :: FileTask where
  "example_task = task_of example_cfg ''show/e1.mkv'' 7 50"

section \<open>Properties of the front-end components\<close>

lemma map_of_obj_put: "map_of (obj_put k v ps) = (map_of ps)(k \<mapsto> v)"
  by (induction ps) (auto simp: fun_upd_twist)

lemma js_spread_Nil: "js_spread base [] = base"
  by (simp add: js_spread_def)

lemma map_of_js_spread:
  "distinct (map fst extra) \<Longrightarrow> map_of (js_spread base extra) = map_of base ++ map_of extra"
  unfolding js_spread_def
proof (induction extra arbitrary: base)
  case Nil
  then show ?case by simp
next
  case (Cons p extra)
  obtain k v where p: "p = (k, v)" by (cases p)
  from Cons.prems p have notin: "k \<notin> fst ` set extra" and d: "distinct (map fst extra)" by auto
  have none: "map_of extra k = None" using notin by (simp add: map_of_eq_None_iff)
  have "map_of (fold (\<lambda>(k, v) acc. obj_put k v acc) extra (obj_put k v base)) x
      = (map_of base ++ map_of ((k, v) # extra)) x" for x
    using Cons.IH[OF d, of "obj_put k v base"] none
    by (auto simp: map_of_obj_put map_add_def split: option.splits)
  then show ?case using p by (auto simp: fun_eq_iff map_add_def)
qed

text \<open>
  Claim C8. A Config component created without \<^verbatim>\<open>initialConfig\<close> (none passed, or an
  empty object) holds exactly enabled=false, source_path='', target_path='',
  sync_type='incremental', execution_mode='immediate', delay_minutes=5,
  enable_notifications=false, notification_channel='telegram', sync_strategy='copy',
  max_depth=-1, file_filters='', exclude_patterns='', max_workers=4,
  trigger_events=['transfer.complete'], and \<^verbatim>\<open>saveConfig\<close> would post exactly that
  object to \<^verbatim>\<open>save_config_api\<close>. With an \<^verbatim>\<open>initialConfig\<close> (an object, so with
  distinct keys), every field it supplies overrides the default of that name and every
  other default stays: the configuration is those fourteen defaults overridden by
  \<^verbatim>\<open>initialConfig\<close>.
\<close>

theorem C8_config_defaults:
  assumes "distinct (map fst init)"
  shows "config (Config_setup None) =
       [(''enabled'', JBool False),
        (''source_path'', JStr ''''),
        (''target_path'', JStr ''''),
        (''sync_type'', JStr ''incremental''),
        (''execution_mode'', JStr ''immediate''),
        (''delay_minutes'', JNum 5),
        (''enable_notifications'', JBool False),
        (''notification_channel'', JStr ''telegram''),
        (''sync_strategy'', JStr ''copy''),
        (''max_depth'', JNum (- 1)),
        (''file_filters'', JStr ''''),
        (''exclude_patterns'', JStr ''''),
        (''max_workers'', JNum 4),
        (''trigger_events'', JArr [JStr ''transfer.complete''])]
    \<and> config (Config_setup (Some [])) =
       [(''enabled'', JBool False),
        (''source_path'', JStr ''''),
        (''target_path'', JStr ''''),
        (''sync_type'', JStr ''incremental''),
        (''execution_mode'', JStr ''immediate''),
        (''delay_minutes'', JNum 5),
        (''enable_notifications'', JBool False),
        (''notification_channel'', JStr ''telegram''),
        (''sync_strategy'', JStr ''copy''),
        (''max_depth'', JNum (- 1)),
        (''file_filters'', JStr ''''),
        (''exclude_patterns'', JStr ''''),
        (''max_workers'', JNum 4),
        (''trigger_events'', JArr [JStr ''transfer.complete''])]
    \<and> saveConfig_request (Config_setup None) =
       (''save_config_api'', JObj
       [(''enabled'', JBool False),
        (''source_path'', JStr ''''),
        (''target_path'', JStr ''''),
        (''sync_type'', JStr ''incremental''),
        (''execution_mode'', JStr ''immediate''),
        (''delay_minutes'', JNum 5),
        (''enable_notifications'', JBool False),
        (''notification_channel'', JStr ''telegram''),
        (''sync_strategy'', JStr ''copy''),
        (''max_depth'', JNum (- 1)),
        (''file_filters'', JStr ''''),
        (''exclude_patterns'', JStr ''''),
        (''max_workers'', JNum 4),
        (''trigger_events'', JArr [JStr ''transfer.complete''])])
    \<and> map_of (config (Config_setup (Some init))) =
       map_of
       [(''enabled'', JBool False),
        (''source_path'', JStr ''''),
        (''target_path'', JStr ''''),
        (''sync_type'', JStr ''incremental''),
        (''execution_mode'', JStr ''immediate''),
        (''delay_minutes'', JNum 5),
        (''enable_notifications'', JBool False),
        (''notification_channel'', JStr ''telegram''),
        (''sync_strategy'', JStr ''copy''),
        (''max_depth'', JNum (- 1)),
        (''file_filters'', JStr ''''),
        (''exclude_patterns'', JStr ''''),
        (''max_workers'', JNum 4),
        (''trigger_events'', JArr [JStr ''transfer.complete''])]
       ++ map_of init"
  using assms
  by (simp add: Config_setup_def props_initialConfig_def js_spread_Nil saveConfig_request_def
      map_of_js_spread config_defaults_def)

theorem C8_config_defaults_witness:
  "distinct (map fst [(''max_workers'', JNum 8), (''title'', JStr ''sync'')])
   \<and> config (Config_setup None) =
       [(''enabled'', JBool False),
        (''source_path'', JStr ''''),
        (''target_path'', JStr ''''),
        (''sync_type'', JStr ''incremental''),
        (''execution_mode'', JStr ''immediate''),
        (''delay_minutes'', JNum 5),
        (''enable_notifications'', JBool False),
        (''notification_channel'', JStr ''telegram''),
        (''sync_strategy'', JStr ''copy''),
        (''max_depth'', JNum (- 1)),
        (''file_filters'', JStr ''''),
        (''exclude_patterns'', JStr ''''),
        (''max_workers'', JNum 4),
        (''trigger_events'', JArr [JStr ''transfer.complete''])]
   \<and> map_of (config (Config_setup (Some [(''max_workers'', JNum 8), (''title'', JStr ''sync'')])))
        ''max_workers'' = Some (JNum 8)
   \<and> map_of (config (Config_setup (Some [(''max_workers'', JNum 8), (''title'', JStr ''sync'')])))
        ''max_depth'' = Some (JNum (- 1))
   \<and> map_of (config (Config_setup (Some [(''max_workers'', JNum 8), (''title'', JStr ''sync'')])))
        ''title'' = Some (JStr ''sync'')"
proof -
  have d: "distinct (map fst [(''max_workers'', JNum 8), (''title'', JStr ''sync'')])"
    by simp
  show ?thesis
    using d C8_config_defaults [OF d]
    by simp
qed

text \<open>The configuration itself, order included, for an \<^verbatim>\<open>initialConfig\<close> of two fields.\<close>

lemma Config_setup_override:
  "config (Config_setup (Some [(''max_workers'', JNum 8), (''title'', JStr ''sync'')])) =
       [(''enabled'', JBool False),
        (''source_path'', JStr ''''),
        (''target_path'', JStr ''''),
        (''sync_type'', JStr ''incremental''),
        (''execution_mode'', JStr ''immediate''),
        (''delay_minutes'', JNum 5),
        (''enable_notifications'', JBool False),
        (''notification_channel'', JStr ''telegram''),
        (''sync_strategy'', JStr ''copy''),
        (''max_depth'', JNum (- 1)),
        (''file_filters'', JStr ''''),
        (''exclude_patterns'', JStr ''''),
        (''max_workers'', JNum 8),
        (''trigger_events'', JArr [JStr ''transfer.complete'']),
        (''title'', JStr ''sync'')]"
  by (simp add: Config_setup_def props_initialConfig_def js_spread_def config_defaults_def
      comes_before_def array_index_def is_digit_def)

lemma no_error_iff:
  "no_error r \<longleftrightarrow> js_truthy r \<and> (\<exists>e. js_get r ''error'' = Some e \<and> \<not> js_truthy e)"
  by (auto simp: no_error_def split: option.splits)

text \<open>
  Claim C9. In \<^verbatim>\<open>getStatus\<close> of Dashboard.vue, of Page.vue and of the status widget,
  for every reply of the API call: the held status changes only when the call returned
  a (truthy) value whose \<^verbatim>\<open>error\<close> field is absent or falsy; a returned value with
  a truthy \<^verbatim>\<open>error\<close> and a thrown exception both leave the held status as it was;
  and whenever the function gets past its guard (\<^verbatim>\<open>allowRefresh\<close>, and for
  Dashboard.vue the presence of the API object; Page.vue has no guard), \<^verbatim>\<open>loading\<close>
  is false at the end, on the success, the error and the exception path alike.
\<close>

theorem C9_getStatus:
  "(status (Dashboard_getStatus allowRefresh api reply st) \<noteq> status st \<longrightarrow>
      (\<exists>r e. reply = Returned r \<and> js_truthy r \<and> js_get r ''error'' = Some e \<and> \<not> js_truthy e))
   \<and> (status (Page_getStatus api reply st) \<noteq> status st \<longrightarrow>
      (\<exists>r e. reply = Returned r \<and> js_truthy r \<and> js_get r ''error'' = Some e \<and> \<not> js_truthy e))
   \<and> (status (Widget_getStatus allowRefresh api now reply st) \<noteq> status st \<longrightarrow>
      (\<exists>r e. reply = Returned r \<and> js_truthy r \<and> js_get r ''error'' = Some e \<and> \<not> js_truthy e))
   \<and> (js_get r ''error'' = Some e \<and> js_truthy e \<longrightarrow>
        status (Dashboard_getStatus allowRefresh api (Returned r) st) = status st
      \<and> status (Page_getStatus api (Returned r) st) = status st
      \<and> status (Widget_getStatus allowRefresh api now (Returned r) st) = status st)
   \<and> status (Dashboard_getStatus allowRefresh api Threw st) = status st
   \<and> status (Page_getStatus api Threw st) = status st
   \<and> status (Widget_getStatus allowRefresh api now Threw st) = status st
   \<and> (allowRefresh \<and> api \<longrightarrow> \<not> loading (Dashboard_getStatus allowRefresh api reply st))
   \<and> \<not> loading (Page_getStatus api reply st)
   \<and> (allowRefresh \<longrightarrow> \<not> loading (Widget_getStatus allowRefresh api now reply st))"
  by (cases reply)
     (auto simp: Dashboard_getStatus_def Page_getStatus_def Widget_getStatus_def no_error_iff)

theorem C9_getStatus_witness:
  "status (Dashboard_getStatus True True (Returned (JObj [(''error'', JStr ''boom'')])) example_status)
      = status example_status
   \<and> status (Page_getStatus True (Returned (JObj [(''error'', JStr ''boom'')])) example_status)
      = status example_status
   \<and> \<not> loading (Dashboard_getStatus True True (Returned (JObj [(''error'', JStr ''boom'')])) example_status)
   \<and> \<not> loading (Widget_getStatus True True ''now'' (Returned (JObj [(''error'', JStr ''boom'')])) example_status)"
  using C9_getStatus [of True True "Returned (JObj [(''error'', JStr ''boom'')])" example_status
      "''now''" "JObj [(''error'', JStr ''boom'')]" "JStr ''boom''"]
  by (simp add: js_index_def)

text \<open>What an accepted reply does: the status becomes the result (with the time, in the widget).\<close>

lemma getStatus_accepts:
  assumes "js_truthy r" and "js_get r ''error'' = Some e" and "\<not> js_truthy e"
  shows "status (Dashboard_getStatus True True (Returned r) st) = r"
    and "status (Page_getStatus True (Returned r) st) = r"
    and "status (Widget_getStatus True True now (Returned r) st) =
           JObj (obj_put ''last_sync_time'' (JStr now) (js_spread [] (js_own_enumerable r)))"
  using assms
  by (simp_all add: Dashboard_getStatus_def Page_getStatus_def Widget_getStatus_def no_error_iff)

text \<open>
  For a string that names no property of \<^verbatim>\<open>Object.prototype\<close>, the two formatters
  give the label of a known value and the string itself otherwise.
\<close>

lemma formatStrategy_plain:
  "map_of Object_prototype s = None \<Longrightarrow>
   formatStrategy s =
     (if s = ''copy'' then JStr label_copy
      else if s = ''move'' then JStr label_move
      else if s = ''softlink'' then JStr label_softlink
      else if s = ''hardlink'' then JStr label_hardlink
      else JStr s)"
  by (simp add: formatStrategy_def js_index_def strategyMap_def js_or_def label_copy_def
      label_move_def label_softlink_def label_hardlink_def)

lemma formatSyncType_plain:
  "map_of Object_prototype s = None \<Longrightarrow>
   formatSyncType s =
     (if s = ''incremental'' then JStr label_incremental
      else if s = ''full'' then JStr label_full
      else JStr s)"
  by (simp add: formatSyncType_def js_index_def typeMap_def js_or_def label_incremental_def
      label_full_def)

text \<open>
  Claim C10. \<^verbatim>\<open>formatStrategy\<close> and \<^verbatim>\<open>formatSyncType\<close> are to give the Chinese
  label of a known value and any other string unchanged. They look the string up with
  \<^verbatim>\<open>map[key] || key\<close> in an object literal, which also answers for the names it
  inherits from \<^verbatim>\<open>Object.prototype\<close>: for the input \<^verbatim>\<open>constructor\<close> the
  result of \<^verbatim>\<open>formatStrategy\<close> is the function \<^verbatim>\<open>Object\<close>, not the string
  \<^verbatim>\<open>constructor\<close> and not a string at all, and \<^verbatim>\<open>formatSyncType\<close> gives
  \<^verbatim>\<open>Object.prototype.toString\<close> for \<^verbatim>\<open>toString\<close>.
\<close>

theorem C10_format_inherited_key:
  "formatStrategy ''constructor'' = JBuiltin ''Object''
   \<and> formatStrategy ''constructor'' \<noteq> JStr ''constructor''
   \<and> formatSyncType ''toString'' = JBuiltin ''Object.prototype.toString''
   \<and> formatSyncType ''toString'' \<noteq> JStr ''toString''"
  by (simp add: formatStrategy_def formatSyncType_def js_index_def strategyMap_def typeMap_def
      Object_prototype_def js_or_def)

section \<open>Properties of the plugin's Python enumerations\<close>


section \<open>Properties of the specified engine\<close>

lemma files_under_path:
  "(p, d, sz, mt) \<in> set (files_under dir depth e) \<Longrightarrow>
   depth \<le> d \<and> (\<exists>rest. p = join_path dir rest)"
proof (induction e arbitrary: dir depth)
  case (File name s m)
  then show ?case by auto
next
  case (Dir name entries)
  then obtain e where e: "e \<in> set entries"
    and m: "(p, d, sz, mt) \<in> set (files_under (join_path dir name) (Suc depth) e)"
    by auto
  from Dir.IH[OF e m] obtain rest where "Suc depth \<le> d"
    and p: "p = join_path (join_path dir name) rest"
    by auto
  moreover have "\<exists>r. join_path (join_path dir name) rest = join_path dir r"
    by (auto simp: join_path_def)
  ultimately show ?case by auto
next
  case (Special name)
  then show ?case by simp
qed

lemma sublist_join_path: "sublist pat dir \<Longrightarrow> sublist pat (join_path dir rest)"
  unfolding sublist_def join_path_def by (metis append.assoc append_Nil2)

text \<open>Below a directory that the filter rejects, the filter admits no file.\<close>

lemma pruned_not_admitted:
  assumes "\<not> admits cfg Directory rel (int depth)"
    and "depth \<le> d"
  shows "\<not> admits cfg RegularFile (join_path rel rest) (int d)"
  using assms by (auto simp: admits_def intro: sublist_join_path)

text \<open>The tasks of the walk are those of the files below that \<open>emitted_by\<close> accepts.\<close>

lemma set_walk:
  "t \<in> set (walk cfg fls dir depth e) \<longleftrightarrow>
     (\<exists>p d sz mt. (p, d, sz, mt) \<in> set (files_under dir depth e)
        \<and> emitted_by cfg fls (p, d, sz, mt) \<and> t = task_of cfg p sz mt)"
proof (induction e arbitrary: dir depth)
  case (File name s m)
  show ?case by (auto simp: emitted_by_def Let_def)
next
  case (Dir name entries)
  show ?case
  proof (cases "admits cfg Directory (join_path dir name) (int (Suc depth))")
    case True
    then have "t \<in> set (walk cfg fls dir depth (Dir name entries)) \<longleftrightarrow>
        (\<exists>e\<in>set entries. t \<in> set (walk cfg fls (join_path dir name) (Suc depth) e))"
      by (simp add: Let_def)
    also have "\<dots> \<longleftrightarrow> (\<exists>e\<in>set entries. \<exists>p d sz mt.
        (p, d, sz, mt) \<in> set (files_under (join_path dir name) (Suc depth) e)
        \<and> emitted_by cfg fls (p, d, sz, mt) \<and> t = task_of cfg p sz mt)"
      using Dir.IH by simp
    also have "\<dots> \<longleftrightarrow> (\<exists>p d sz mt.
        (p, d, sz, mt) \<in> set (files_under dir depth (Dir name entries))
        \<and> emitted_by cfg fls (p, d, sz, mt) \<and> t = task_of cfg p sz mt)"
      by (auto; blast)
    finally show ?thesis .
  next
    case False
    have "\<not> emitted_by cfg fls (p, d, sz, mt)"
      if "(p, d, sz, mt) \<in> set (files_under dir depth (Dir name entries))" for p d sz mt
    proof -
      from that obtain e where "e \<in> set entries"
        and "(p, d, sz, mt) \<in> set (files_under (join_path dir name) (Suc depth) e)" by auto
      from files_under_path[OF this(2)] obtain rest where
        "Suc depth \<le> d" "p = join_path (join_path dir name) rest" by auto
      with pruned_not_admitted[OF False, of d rest] show ?thesis
        by (simp add: emitted_by_def)
    qed
    then have "\<not> (\<exists>p d sz mt. (p, d, sz, mt) \<in> set (files_under dir depth (Dir name entries))
        \<and> emitted_by cfg fls (p, d, sz, mt) \<and> t = task_of cfg p sz mt)"
      by blast
    moreover have "walk cfg fls dir depth (Dir name entries) = []"
      using False by (simp add: Let_def)
    ultimately show ?thesis by simp
  qed
next
  case (Special name)
  show ?case by simp
qed

lemma plan_tasks:
  assumes "trees fs (source_path' cfg) = Some entries"
  shows "plan cfg fs = Inr (concat (map (walk cfg (files fs) [] 0) entries))"
  using assms by (simp add: plan_def)

lemma task_of_inject:
  "task_of cfg p sz mt = task_of cfg p' sz' mt' \<longleftrightarrow> p = p' \<and> sz = sz' \<and> mt = mt'"
  by (auto simp: task_of_def)

text \<open>
  Claim C1. For every configuration in incremental mode whose \<open>source_path\<close> can be
  read, and every regular file anywhere under it that the Path Filter admits, planning
  succeeds and the task for that file is among the planned tasks if and only if the
  mirrored target path is absent, or the target's size differs from the source's, or
  the target's modification time is strictly older than the source's; when the target
  has the source's size and modification time, no task for the file is planned.
\<close>

theorem C1_incremental_plan:
  assumes inc: "sync_type' cfg = INCREMENTAL"
    and src: "trees fs (source_path' cfg) = Some entries"
    and fl: "(rel, d, sz, mt) \<in> set (all_files entries)"
    and adm: "admits cfg RegularFile rel (int d)"
  shows "\<exists>tasks. plan cfg fs = Inr tasks
    \<and> (task_of cfg rel sz mt \<in> set tasks \<longleftrightarrow>
         (case files fs (join_path (target_path' cfg) rel) of
            None \<Rightarrow> True
          | Some st \<Rightarrow> st_size st \<noteq> sz \<or> st_mtime st < mt))
    \<and> ((\<exists>st. files fs (join_path (target_path' cfg) rel) = Some st
            \<and> st_size st = sz \<and> st_mtime st = mt)
         \<longrightarrow> task_of cfg rel sz mt \<notin> set tasks)"
proof -
  let ?tasks = "concat (map (walk cfg (files fs) [] 0) entries)"
  let ?t = "task_of cfg rel sz mt"
  have mem: "?t \<in> set ?tasks \<longleftrightarrow> needs_transfer (files fs) ?t"
  proof
    assume "?t \<in> set ?tasks"
    then obtain e where "e \<in> set entries" "?t \<in> set (walk cfg (files fs) [] 0 e)" by auto
    then obtain p d' sz' mt' where "emitted_by cfg (files fs) (p, d', sz', mt')"
      and "?t = task_of cfg p sz' mt'" by (auto simp: set_walk)
    then show "needs_transfer (files fs) ?t" using inc
      by (simp add: emitted_by_def task_of_inject)
  next
    assume n: "needs_transfer (files fs) ?t"
    from fl obtain e where e: "e \<in> set entries"
      and f: "(rel, d, sz, mt) \<in> set (files_under [] 0 e)"
      by (auto simp: all_files_def)
    have "emitted_by cfg (files fs) (rel, d, sz, mt)" using adm n by (simp add: emitted_by_def)
    with f have "?t \<in> set (walk cfg (files fs) [] 0 e)" by (auto simp: set_walk)
    with e show "?t \<in> set ?tasks" by auto
  qed
  have tgt: "target_abs_path ?t = join_path (target_path' cfg) rel" "size' ?t = sz" "mtime ?t = mt"
    by (simp_all add: task_of_def)
  show ?thesis
    using plan_tasks[OF src] mem tgt
    by (auto simp: needs_transfer_def split: option.splits)
qed

theorem C1_incremental_plan_witness:
  "sync_type' example_cfg = INCREMENTAL
   \<and> trees example_fs (source_path' example_cfg) = Some example_tree
   \<and> (''show/e1.mkv'', 1, 7, 50) \<in> set (all_files example_tree)
   \<and> admits example_cfg RegularFile ''show/e1.mkv'' (int 1)
   \<and> (\<exists>tasks. plan example_cfg example_fs = Inr tasks \<and> example_task \<in> set tasks)"
proof -
  have h1: "sync_type' example_cfg = INCREMENTAL"
    by (simp add: example_cfg_def)
  have h2: "trees example_fs (source_path' example_cfg) = Some example_tree"
    by (simp add: example_fs_def example_cfg_def)
  have h3: "(''show/e1.mkv'', 1, 7, 50) \<in> set (all_files example_tree)"
    by (simp add: all_files_def example_tree_def join_path_def)
  have h4: "admits example_cfg RegularFile ''show/e1.mkv'' (int 1)"
    by code_simp
  from C1_incremental_plan [OF h1 h2 h3 h4] h1 h2 h3 h4 show ?thesis
    by (simp add: example_task_def example_fs_def example_cfg_def join_path_def)
qed

end
